theory Spec2Isabelle
  imports Main
begin

section \<open>Text: the string operations of the source\<close>

text \<open>
  Text is modelled as \<^typ>\<open>string\<close>, one \<^typ>\<open>char\<close> per character, and
  covers ASCII input: the character classes below are those of Python on the
  code points below 128. Integer/string conversions are modelled without the
  interpreter's configurable digit limit.
\<close>

definition ord :: "char \<Rightarrow> nat" where
  "ord c = of_char c"

text \<open>The characters removed by \<open>str.strip()\<close>.\<close>

definition py_isspace :: "char \<Rightarrow> bool" where
  "py_isspace c = ((9 \<le> ord c \<and> ord c \<le> 13) \<or> (28 \<le> ord c \<and> ord c \<le> 32))"

text \<open>The characters skipped by \<open>int()\<close> around a number.\<close>

definition int_isspace :: "char \<Rightarrow> bool" where
  "int_isspace c = ((9 \<le> ord c \<and> ord c \<le> 13) \<or> ord c = 32)"

definition is_upper :: "char \<Rightarrow> bool" where
  "is_upper c = (65 \<le> ord c \<and> ord c \<le> 90)"

definition is_lower :: "char \<Rightarrow> bool" where
  "is_lower c = (97 \<le> ord c \<and> ord c \<le> 122)"

definition is_alpha :: "char \<Rightarrow> bool" where
  "is_alpha c = (is_upper c \<or> is_lower c)"

definition is_digit :: "char \<Rightarrow> bool" where
  "is_digit c = (48 \<le> ord c \<and> ord c \<le> 57)"

definition to_upper :: "char \<Rightarrow> char" where
  "to_upper c = (if is_lower c then char_of (ord c - 32) else c)"

definition to_lower :: "char \<Rightarrow> char" where
  "to_lower c = (if is_upper c then char_of (ord c + 32) else c)"

definition py_strip :: "string \<Rightarrow> string" where
  "py_strip s = rev (dropWhile py_isspace (rev (dropWhile py_isspace s)))"

definition py_upper :: "string \<Rightarrow> string" where
  "py_upper s = map to_upper s"

definition py_lower :: "string \<Rightarrow> string" where
  "py_lower s = map to_lower s"

text \<open>
  \<open>str.title()\<close>: a letter that follows a letter is lowered, any other letter
  is raised; the flag says whether the previous character was a letter.
\<close>

fun title_from :: "bool \<Rightarrow> string \<Rightarrow> string" where
  "title_from prev [] = []"
| "title_from prev (c # cs) =
     (if is_lower c then (if prev then c else to_upper c) # title_from True cs
      else if is_upper c then (if prev then to_lower c else c) # title_from True cs
      else c # title_from False cs)"

definition py_title :: "string \<Rightarrow> string" where
  "py_title s = title_from False s"

definition py_isalpha :: "string \<Rightarrow> bool" where
  "py_isalpha s = (s \<noteq> [] \<and> list_all is_alpha s)"

text \<open>\<open>s.replace(" ", "")\<close>\<close>

definition remove_spaces :: "string \<Rightarrow> string" where
  "remove_spaces s = filter (\<lambda>c. c \<noteq> CHR '' '') s"

text \<open>\<open>re.fullmatch(r"SKU\d+", s)\<close>\<close>

definition fullmatch_sku :: "string \<Rightarrow> bool" where
  "fullmatch_sku s =
     (take 3 s = ''SKU'' \<and> drop 3 s \<noteq> [] \<and> list_all is_digit (drop 3 s))"

text \<open>\<open>s.split(",")\<close>: never empty, one more field than there are commas.\<close>

fun split_comma :: "string \<Rightarrow> string list" where
  "split_comma [] = [[]]"
| "split_comma (c # cs) =
     (if c = CHR '','' then [] # split_comma cs
      else (case split_comma cs of
              [] \<Rightarrow> [[c]]
            | f # fs \<Rightarrow> (c # f) # fs))"

subsection \<open>Integers and text\<close>

definition digit_char :: "nat \<Rightarrow> char" where
  "digit_char d = char_of (48 + d)"

fun digits :: "nat \<Rightarrow> string" where
  "digits n = (if n < 10 then [digit_char n] else digits (n div 10) @ [digit_char (n mod 10)])"

declare digits.simps [simp del]

text \<open>\<open>str(n)\<close> for an integer, as an f-string field \<open>{n}\<close> renders it.\<close>

definition py_str :: "int \<Rightarrow> string" where
  "py_str n = (if n < 0 then CHR ''-'' # digits (nat (- n)) else digits (nat n))"

text \<open>
  The digits of \<open>int()\<close>: decimal digits, with single underscores allowed
  between digits. The flag says whether the previous character was a digit.
\<close>

fun parse_digits :: "nat \<Rightarrow> bool \<Rightarrow> string \<Rightarrow> nat option" where
  "parse_digits acc prev [] = (if prev then Some acc else None)"
| "parse_digits acc prev (c # cs) =
     (if c = CHR ''_'' then (if prev then parse_digits acc False cs else None)
      else if is_digit c then parse_digits (10 * acc + (ord c - 48)) True cs
      else None)"

text \<open>
  \<open>int(s)\<close> on a string: \<open>None\<close> is the \<open>ValueError\<close>. Surrounding
  whitespace is dropped, one sign is allowed.
\<close>

definition py_int :: "string \<Rightarrow> int option" where
  "py_int s =
     (case rev (dropWhile int_isspace (rev (dropWhile int_isspace s))) of
        [] \<Rightarrow> None
      | c # cs \<Rightarrow>
          if c = CHR ''-'' then map_option (\<lambda>n. - int n) (parse_digits 0 False cs)
          else if c = CHR ''+'' then map_option int (parse_digits 0 False cs)
          else map_option int (parse_digits 0 False (c # cs)))"

text \<open>
  Formatting an integer with \<open>:,.2f\<close> converts it to a float first, which
  raises \<open>OverflowError\<close> when the integer rounds beyond the largest double.
\<close>

definition float_ok :: "int \<Rightarrow> bool" where
  "float_ok n = (\<bar>n\<bar> < 2 ^ 1024 - 2 ^ 970)"

section \<open>The data model\<close>

text \<open>One inventory entry: the class \<open>Shoe\<close>.\<close>

record Shoe =
  country :: string
  code :: string
  product :: string
  cost :: int
  quantity :: int

text \<open>
  The exceptions that the program can raise. \<open>FileNotFoundError\<close> is caught
  inside the loader and is a branch there.
\<close>

datatype error = IndexError | ValueError | OverflowError | EOFError | StopIteration

text \<open>
  What the program prints. Each fixed text of the source is a constructor of
  \<open>message\<close> (a \<open>print\<close>) or of \<open>prompt\<close> (the text of an \<open>input\<close>); the
  formatted lines carry the values they are formatted from.
\<close>

text \<open>
  The texts, by function of the source. Loader: \<open>FileNotFound\<close> "The file
  'inventory.txt' was not found." Capture: \<open>CaptureBanner\<close> "Enter 'x' at
  any time to cancel.", \<open>CaptureCancelled\<close> "Capture cancelled.",
  \<open>InvalidCountry\<close>, \<open>InvalidCode\<close>, \<open>InvalidProduct\<close> the three
  "Invalid ..." complaints, \<open>CostNegative\<close> "Error: Cost cannot be
  negative", \<open>CostNotInteger\<close> "Error: Please enter a valid integer for
  cost", \<open>QuantityNegative\<close> and \<open>QuantityNotInteger\<close> likewise,
  \<open>ShoeCaptured\<close> "Shoe successfully captured." Restock: \<open>LowestStock\<close>
  "The following shoe has the lowest stock: ", \<open>RestockCancelledX\<close>
  "Restock cancelled." (after \<open>x\<close>), \<open>RestockNegative\<close> "Error: Restock
  amount cannot be negative.", \<open>RestockNotInteger\<close> "Error: Please enter a
  valid integer.", \<open>FileUpdated\<close> "Inventory file updated successfully",
  \<open>RestockDeclined\<close> "Restock cancelled" (the \<open>else\<close> branch). Search:
  \<open>ShoeFound\<close> "Shoe found!", \<open>ShoeNotFound\<close> "Invalid code or shoe not
  found". Menu: \<open>Goodbye\<close> "Goodbye!", \<open>InvalidSelection\<close> "Invalid input
  given. Select a valid number", \<open>InvalidMenuInput\<close> "Invalid input. Select
  a valid number". \<open>ShowShoe\<close> is \<open>print(shoe)\<close>, \<open>UpdatedQuantity\<close> the
  line "Updated quantity: ...", \<open>Table\<close> the table of \<open>view_all\<close>,
  \<open>TotalValue\<close> a line of \<open>value_per_item\<close>, \<open>OnSale\<close> the line of
  \<open>highest_qty\<close>.
\<close>

datatype message =
    FileNotFound | CaptureBanner | CaptureCancelled
  | InvalidCountry | InvalidCode | InvalidProduct
  | CostNegative | CostNotInteger | QuantityNegative | QuantityNotInteger
  | ShoeCaptured
  | LowestStock | RestockCancelledX | RestockNegative | RestockNotInteger
  | FileUpdated | RestockDeclined
  | ShoeFound | ShoeNotFound
  | Goodbye | InvalidSelection | InvalidMenuInput

datatype prompt =
    AskCountry | AskCode | AskProduct | AskCost | AskQuantity
  | AskRestock | AskAmount | AskSearch | AskMenu

datatype out =
    Say message
  | Ask prompt
  | ShowShoe Shoe
  | UpdatedQuantity int
  | Table "Shoe list"
  | TotalValue string int
  | OnSale Shoe

text \<open>
  The program state. \<open>shoe_list\<close> is a Python list of object references:
  \<open>heap\<close> holds the \<open>Shoe\<close> objects, a reference is an index into it, and
  two entries of \<open>shoe_list\<close> may be the same object. \<open>inventory_txt\<close> is the
  content of the backing file, \<open>None\<close> when the file does not exist.
\<close>

record state =
  heap :: "Shoe list"
  shoe_list :: "nat list"
  inventory_txt :: "string option"
  stdout :: "out list"

definition boot :: "string option \<Rightarrow> state" where
  "boot f = \<lparr>heap = [], shoe_list = [], inventory_txt = f, stdout = []\<rparr>"

text \<open>The Records of the store, by value, in store order.\<close>

definition store :: "state \<Rightarrow> Shoe list" where
  "store st = map (\<lambda>r. heap st ! r) (shoe_list st)"

definition emit :: "out \<Rightarrow> state \<Rightarrow> state" where
  "emit x st = st\<lparr>stdout := stdout st @ [x]\<rparr>"

text \<open>\<open>shoe_list.append(Shoe(...))\<close>: a new object, referenced at the end.\<close>

definition append_shoe :: "Shoe \<Rightarrow> state \<Rightarrow> state" where
  "append_shoe s st =
     st\<lparr>heap := heap st @ [s], shoe_list := shoe_list st @ [length (heap st)]\<rparr>"

section \<open>The backing file\<close>

text \<open>
  Reading in text mode translates \<open>\r\n\<close> and \<open>\r\<close> to \<open>\n\<close>; iterating
  over the file yields the lines with their terminator.
\<close>

fun universal_newlines :: "string \<Rightarrow> string" where
  "universal_newlines [] = []"
| "universal_newlines [c] = [if c = CHR 0x0D then CHR 0x0A else c]"
| "universal_newlines (c # d # cs) =
     (if c = CHR 0x0D
      then CHR 0x0A # (if d = CHR 0x0A then universal_newlines cs
                       else universal_newlines (d # cs))
      else c # universal_newlines (d # cs))"

fun split_lines :: "string \<Rightarrow> string list" where
  "split_lines [] = []"
| "split_lines (c # cs) =
     (if c = CHR 0x0A then [c] # split_lines cs
      else (case split_lines cs of
              [] \<Rightarrow> [[c]]
            | l # ls \<Rightarrow> (c # l) # ls))"

definition file_lines :: "string \<Rightarrow> string list" where
  "file_lines text = split_lines (universal_newlines text)"

text \<open>The body of the loader's \<open>for\<close> loop, up to the construction of the Shoe.\<close>

definition parse_line :: "string \<Rightarrow> error + Shoe" where
  "parse_line line =
     (let line_split_up = split_comma (py_strip line) in
      if length line_split_up < 4 then Inl IndexError
      else (case py_int (line_split_up ! 3) of
              None \<Rightarrow> Inl ValueError
            | Some c \<Rightarrow>
                if length line_split_up < 5 then Inl IndexError
                else (case py_int (line_split_up ! 4) of
                        None \<Rightarrow> Inl ValueError
                      | Some q \<Rightarrow>
                          Inr \<lparr>country = line_split_up ! 0, code = line_split_up ! 1,
                               product = line_split_up ! 2, cost = c, quantity = q\<rparr>)))"

fun read_lines :: "string list \<Rightarrow> state \<Rightarrow> (error \<times> state) + state" where
  "read_lines [] st = Inr st"
| "read_lines (line # rest) st =
     (case parse_line line of
        Inl e \<Rightarrow> Inl (e, st)
      | Inr shoe \<Rightarrow> read_lines rest (append_shoe shoe st))"

definition read_shoes_data :: "state \<Rightarrow> (error \<times> state) + state" where
  "read_shoes_data st =
     (case inventory_txt st of
        None \<Rightarrow> Inr (emit (Say FileNotFound) st)
      | Some text \<Rightarrow>
          (case file_lines text of
             [] \<Rightarrow> Inl (StopIteration, st)
           | header # ls \<Rightarrow> read_lines ls st))"

text \<open>What the restock writes: the header and one line per entry of the list.\<close>

definition shoe_line :: "Shoe \<Rightarrow> string" where
  "shoe_line s =
     country s @ '','' @ code s @ '','' @ product s @ '','' @ py_str (cost s) @ '','' @
     py_str (quantity s) @ [CHR 0x0A]"

definition file_text :: "Shoe list \<Rightarrow> string" where
  "file_text shoes =
     ''Country,Code,Product,Cost,Quantity'' @ [CHR 0x0A] @ concat (map shoe_line shoes)"

section \<open>Interactive operations\<close>

text \<open>
  Standard input is the list of the lines still to be typed; \<open>input()\<close> takes
  the first one and raises \<open>EOFError\<close> when none is left. An operation returns
  \<open>Inr\<close> with the new state and the remaining input when it returns, and
  \<open>Inl\<close> with the exception, the state at that moment and the remaining input
  when it raises.
\<close>

type_synonym result = "(error \<times> state \<times> string list) + (state \<times> string list)"

datatype 'a entered = Entered 'a | Cancelled | EndOfInput

text \<open>
  The \<open>while True\<close> loops around one \<open>input\<close>: \<open>norm\<close> is what the source
  applies to the typed line, the sentinel is tested on the result, \<open>check\<close>
  is the validation, returning the complaint to print before asking again.
\<close>

fun prompt_loop ::
  "prompt \<Rightarrow> (string \<Rightarrow> string) \<Rightarrow> message \<Rightarrow> (string \<Rightarrow> message + 'a) \<Rightarrow>
   string list \<Rightarrow> out list \<Rightarrow> 'a entered \<times> string list \<times> out list" where
  "prompt_loop p norm cancelled check [] out = (EndOfInput, [], out @ [Ask p])"
| "prompt_loop p norm cancelled check (l # ls) out =
     (if py_lower (norm l) = ''x'' then (Cancelled, ls, out @ [Ask p, Say cancelled])
      else (case check (norm l) of
              Inl complaint \<Rightarrow> prompt_loop p norm cancelled check ls (out @ [Ask p, Say complaint])
            | Inr a \<Rightarrow> (Entered a, ls, out @ [Ask p])))"

definition check_country :: "string \<Rightarrow> message + string" where
  "check_country v =
     (if v = [] \<or> \<not> py_isalpha (remove_spaces v) then Inl InvalidCountry else Inr v)"

definition check_code :: "string \<Rightarrow> message + string" where
  "check_code v = (if \<not> fullmatch_sku v then Inl InvalidCode else Inr v)"

definition check_product :: "string \<Rightarrow> message + string" where
  "check_product v =
     (if v = [] \<or> \<not> py_isalpha (remove_spaces v) then Inl InvalidProduct else Inr v)"

definition check_cost :: "string \<Rightarrow> message + int" where
  "check_cost v =
     (case py_int v of
        None \<Rightarrow> Inl CostNotInteger
      | Some c \<Rightarrow> if c < 0 then Inl CostNegative else Inr c)"

definition check_quantity :: "string \<Rightarrow> message + int" where
  "check_quantity v =
     (case py_int v of
        None \<Rightarrow> Inl QuantityNotInteger
      | Some q \<Rightarrow> if q < 0 then Inl QuantityNegative else Inr q)"

definition check_amount :: "string \<Rightarrow> message + int" where
  "check_amount v =
     (case py_int v of
        None \<Rightarrow> Inl RestockNotInteger
      | Some a \<Rightarrow> if a < 0 then Inl RestockNegative else Inr a)"

definition ask_country :: "string list \<Rightarrow> out list \<Rightarrow> string entered \<times> string list \<times> out list" where
  "ask_country = prompt_loop AskCountry (\<lambda>l. py_title (py_strip l)) CaptureCancelled check_country"

definition ask_code :: "string list \<Rightarrow> out list \<Rightarrow> string entered \<times> string list \<times> out list" where
  "ask_code = prompt_loop AskCode (\<lambda>l. py_upper (py_strip l)) CaptureCancelled check_code"

definition ask_product :: "string list \<Rightarrow> out list \<Rightarrow> string entered \<times> string list \<times> out list" where
  "ask_product = prompt_loop AskProduct (\<lambda>l. py_title (py_strip l)) CaptureCancelled check_product"

definition ask_cost :: "string list \<Rightarrow> out list \<Rightarrow> int entered \<times> string list \<times> out list" where
  "ask_cost = prompt_loop AskCost py_strip CaptureCancelled check_cost"

definition ask_quantity :: "string list \<Rightarrow> out list \<Rightarrow> int entered \<times> string list \<times> out list" where
  "ask_quantity = prompt_loop AskQuantity py_strip CaptureCancelled check_quantity"

definition ask_amount :: "string list \<Rightarrow> out list \<Rightarrow> int entered \<times> string list \<times> out list" where
  "ask_amount = prompt_loop AskAmount (\<lambda>l. l) RestockCancelledX check_amount"

text \<open>
  What follows a prompt loop inside an operation on state \<open>st\<close>: the
  sentinel returns from the operation, the end of the input raises, an entered
  value goes on to \<open>k\<close>.
\<close>

definition after_prompt ::
  "'a entered \<times> string list \<times> out list \<Rightarrow> state \<Rightarrow>
   ('a \<Rightarrow> string list \<Rightarrow> out list \<Rightarrow> result) \<Rightarrow> result" where
  "after_prompt r st k =
     (case r of
        (EndOfInput, ins, out) \<Rightarrow> Inl (EOFError, st\<lparr>stdout := out\<rparr>, ins)
      | (Cancelled, ins, out) \<Rightarrow> Inr (st\<lparr>stdout := out\<rparr>, ins)
      | (Entered a, ins, out) \<Rightarrow> k a ins out)"

definition capture_shoes :: "state \<Rightarrow> string list \<Rightarrow> result" where
  "capture_shoes st ins =
     after_prompt (ask_country ins (stdout st @ [Say CaptureBanner])) st (\<lambda>country1 ins1 out1.
     after_prompt (ask_code ins1 out1) st (\<lambda>code1 ins2 out2.
     after_prompt (ask_product ins2 out2) st (\<lambda>product1 ins3 out3.
     after_prompt (ask_cost ins3 out3) st (\<lambda>cost1 ins4 out4.
     after_prompt (ask_quantity ins4 out4) st (\<lambda>quantity1 ins5 out5.
       Inr (append_shoe \<lparr>country = country1, code = code1, product = product1,
                         cost = cost1, quantity = quantity1\<rparr>
              (st\<lparr>stdout := out5 @ [Say ShoeCaptured]\<rparr>), ins5))))))"

definition view_all :: "state \<Rightarrow> string list \<Rightarrow> result" where
  "view_all st ins =
     (if list_all (\<lambda>r. float_ok (cost (heap st ! r))) (shoe_list st)
      then Inr (emit (Table (store st)) st, ins)
      else Inl (OverflowError, st, ins))"

text \<open>
  \<open>sorted(shoe_list, key=Shoe.get_quantity)\<close> is a stable sort of the
  references by the quantity of the object; with \<open>reverse=True\<close> the order of
  the keys is reversed and equal keys still keep their order.
\<close>

definition sorted_ascending :: "state \<Rightarrow> nat list" where
  "sorted_ascending st = sort_key (\<lambda>r. quantity (heap st ! r)) (shoe_list st)"

definition sorted_descending :: "state \<Rightarrow> nat list" where
  "sorted_descending st = sort_key (\<lambda>r. - quantity (heap st ! r)) (shoe_list st)"

text \<open>
  The loop that stores \<open>lowest_stock_shoe\<close> into the first entry of the list
  whose code equals its code.
\<close>

fun write_back :: "Shoe list \<Rightarrow> nat \<Rightarrow> nat list \<Rightarrow> nat list" where
  "write_back h lowest [] = []"
| "write_back h lowest (r # rs) =
     (if code (h ! r) = code (h ! lowest) then lowest # rs
      else r # write_back h lowest rs)"

text \<open>
  The confirmed restock after its prompts (lines 302 to 320): the selected
  object is updated in place, written back by code, and the whole list is
  written to the backing file.
\<close>

definition restock_and_save :: "state \<Rightarrow> nat \<Rightarrow> int \<Rightarrow> state" where
  "restock_and_save st lowest_stock_shoe restock_amount =
     (let old = heap st ! lowest_stock_shoe;
          new = old\<lparr>quantity := quantity old + restock_amount\<rparr>;
          h = (heap st)[lowest_stock_shoe := new];
          l = write_back h lowest_stock_shoe (shoe_list st)
      in st\<lparr>heap := h, shoe_list := l,
             inventory_txt := Some (file_text (map (\<lambda>r. h ! r) l)),
             stdout := stdout st @ [UpdatedQuantity (quantity new), Say FileUpdated]\<rparr>)"

definition re_stock :: "state \<Rightarrow> string list \<Rightarrow> result" where
  "re_stock st ins =
     (case sorted_ascending st of
        [] \<Rightarrow> Inl (IndexError, st, ins)
      | lowest_stock_shoe # _ \<Rightarrow>
          let st1 = emit (Say LowestStock) st in
          if \<not> float_ok (cost (heap st ! lowest_stock_shoe)) then Inl (OverflowError, st1, ins)
          else
            let st2 = emit (Ask AskRestock) (emit (ShowShoe (heap st ! lowest_stock_shoe)) st1) in
            (case ins of
               [] \<Rightarrow> Inl (EOFError, st2, [])
             | request_restock # ins1 \<Rightarrow>
                 if py_upper (py_strip request_restock) = ''Y'' then
                   after_prompt (ask_amount ins1 (stdout st2)) st2 (\<lambda>restock_amount ins2 out2.
                     Inr (restock_and_save (st2\<lparr>stdout := out2\<rparr>) lowest_stock_shoe
                            restock_amount, ins2))
                 else Inr (emit (Say RestockDeclined) st2, ins1)))"

definition search_shoe :: "state \<Rightarrow> string list \<Rightarrow> result" where
  "search_shoe st ins =
     (let st1 = emit (Ask AskSearch) st in
      case ins of
        [] \<Rightarrow> Inl (EOFError, st1, [])
      | l # ins1 \<Rightarrow>
          let shoe_code_input = py_upper (py_strip l) in
          (case find (\<lambda>r. shoe_code_input = code (heap st ! r)) (shoe_list st) of
             None \<Rightarrow> Inr (emit (Say ShoeNotFound) st1, ins1)
           | Some r \<Rightarrow>
               let st2 = emit (Say ShoeFound) st1 in
               if float_ok (cost (heap st ! r)) then Inr (emit (ShowShoe (heap st ! r)) st2, ins1)
               else Inl (OverflowError, st2, ins1)))"

fun value_lines :: "Shoe list \<Rightarrow> state \<Rightarrow> string list \<Rightarrow> result" where
  "value_lines [] st ins = Inr (st, ins)"
| "value_lines (shoe # shoes) st ins =
     (let v = cost shoe * quantity shoe in
      if float_ok v then value_lines shoes (emit (TotalValue (code shoe) v) st) ins
      else Inl (OverflowError, st, ins))"

definition value_per_item :: "state \<Rightarrow> string list \<Rightarrow> result" where
  "value_per_item st ins = value_lines (store st) st ins"

definition highest_qty :: "state \<Rightarrow> string list \<Rightarrow> result" where
  "highest_qty st ins =
     (case sorted_descending st of
        [] \<Rightarrow> Inl (IndexError, st, ins)
      | r # _ \<Rightarrow>
          if float_ok (cost (heap st ! r)) then Inr (emit (OnSale (heap st ! r)) st, ins)
          else Inl (OverflowError, st, ins))"

section \<open>The menu loop\<close>

definition inputs_of :: "result \<Rightarrow> string list" where
  "inputs_of r = (case r of Inl (e, st, ins) \<Rightarrow> ins | Inr (st, ins) \<Rightarrow> ins)"

definition state_of :: "result \<Rightarrow> state" where
  "state_of r = (case r of Inl (e, st, ins) \<Rightarrow> st | Inr (st, ins) \<Rightarrow> st)"

text \<open>The branches 1 to 6 of the \<open>if\<close> chain.\<close>

definition dispatch :: "int \<Rightarrow> state \<Rightarrow> string list \<Rightarrow> result" where
  "dispatch menu_input st ins =
     (if menu_input = 1 then view_all st ins
      else if menu_input = 2 then capture_shoes st ins
      else if menu_input = 3 then re_stock st ins
      else if menu_input = 4 then search_shoe st ins
      else if menu_input = 5 then value_per_item st ins
      else highest_qty st ins)"

lemma prompt_loop_inputs:
  "prompt_loop p norm c check ins out = (r, ins', out') \<Longrightarrow> length ins' \<le> length ins"
proof (induction ins arbitrary: out)
  case Nil
  then show ?case by simp
next
  case (Cons l ls)
  show ?case
  proof (cases "py_lower (norm l) = ''x''")
    case True
    with Cons.prems show ?thesis by simp
  next
    case False
    show ?thesis
    proof (cases "check (norm l)")
      case (Inl m)
      with False Cons.prems
      have "prompt_loop p norm c check ls (out @ [Ask p, Say m]) = (r, ins', out')" by simp
      from Cons.IH [OF this] show ?thesis by simp
    next
      case (Inr a)
      with False Cons.prems show ?thesis by simp
    qed
  qed
qed

lemma after_prompt_inputs:
  assumes "length (fst (snd r)) \<le> n"
    and "\<And>a ins out. length ins \<le> n \<Longrightarrow> length (inputs_of (k a ins out)) \<le> n"
  shows "length (inputs_of (after_prompt r st k)) \<le> n"
  using assms
  by (cases r) (auto simp: after_prompt_def inputs_of_def split: entered.splits)

lemma ask_inputs:
  "length (fst (snd (ask_country ins out))) \<le> length ins"
  "length (fst (snd (ask_code ins out))) \<le> length ins"
  "length (fst (snd (ask_product ins out))) \<le> length ins"
  "length (fst (snd (ask_cost ins out))) \<le> length ins"
  "length (fst (snd (ask_quantity ins out))) \<le> length ins"
  "length (fst (snd (ask_amount ins out))) \<le> length ins"
  unfolding ask_country_def ask_code_def ask_product_def ask_cost_def ask_quantity_def
    ask_amount_def
  by (metis prompt_loop_inputs prod.collapse)+

lemma capture_shoes_inputs: "length (inputs_of (capture_shoes st ins)) \<le> length ins"
  unfolding capture_shoes_def
  by (intro after_prompt_inputs order_trans [OF ask_inputs(1)] order_trans [OF ask_inputs(2)]
        order_trans [OF ask_inputs(3)] order_trans [OF ask_inputs(4)]
        order_trans [OF ask_inputs(5)])
     (simp_all add: inputs_of_def)

lemma re_stock_inputs: "length (inputs_of (re_stock st ins)) \<le> length ins"
proof (cases "sorted_ascending st")
  case Nil
  then show ?thesis by (simp add: re_stock_def inputs_of_def)
next
  case (Cons r rs)
  show ?thesis
  proof (cases ins)
    case Nil
    with Cons show ?thesis by (simp add: re_stock_def inputs_of_def Let_def)
  next
    case (Cons a ins1)
    have "length (inputs_of (after_prompt (ask_amount ins1 out) st' k)) \<le> length ins1"
      if "\<And>x i out. inputs_of (k x i out) = i" for out st' k
      by (rule after_prompt_inputs [OF ask_inputs(6)]) (simp add: that)
    then show ?thesis
      using \<open>sorted_ascending st = r # rs\<close> Cons
      by (auto simp: re_stock_def Let_def inputs_of_def intro: le_SucI)
  qed
qed

lemma value_lines_inputs: "inputs_of (value_lines shoes st ins) = ins"
  by (induction shoes arbitrary: st) (simp_all add: inputs_of_def Let_def)

lemma dispatch_inputs: "length (inputs_of (dispatch n st ins)) \<le> length ins"
proof -
  have "length (inputs_of (view_all st ins)) \<le> length ins"
    by (simp add: view_all_def inputs_of_def)
  moreover have "length (inputs_of (search_shoe st ins)) \<le> length ins"
    by (simp add: search_shoe_def inputs_of_def Let_def split: list.splits option.splits)
  moreover have "length (inputs_of (value_per_item st ins)) \<le> length ins"
    by (simp add: value_per_item_def value_lines_inputs)
  moreover have "length (inputs_of (highest_qty st ins)) \<le> length ins"
    by (simp add: highest_qty_def inputs_of_def split: list.splits)
  ultimately show ?thesis
    by (simp add: dispatch_def capture_shoes_inputs re_stock_inputs)
qed

text \<open>
  The \<open>while True\<close> of the script: the selection is read and converted, the
  operation runs inside the \<open>try\<close>, and only \<open>ValueError\<close> is caught there.
\<close>

function menu_loop :: "state \<Rightarrow> string list \<Rightarrow> result" where
  "menu_loop st [] = Inl (EOFError, emit (Ask AskMenu) st, [])"
| "menu_loop st (l # ls) =
     (case py_int l of
        None \<Rightarrow> menu_loop (emit (Say InvalidMenuInput) (emit (Ask AskMenu) st)) ls
      | Some menu_input \<Rightarrow>
          if 1 \<le> menu_input \<and> menu_input \<le> 6 then
            (case dispatch menu_input (emit (Ask AskMenu) st) ls of
               Inr (st2, ls2) \<Rightarrow> menu_loop st2 ls2
             | Inl (e, st2, ls2) \<Rightarrow>
                 if e = ValueError then menu_loop (emit (Say InvalidMenuInput) st2) ls2
                 else Inl (e, st2, ls2))
          else if menu_input = 7 then Inr (emit (Say Goodbye) (emit (Ask AskMenu) st), ls)
          else menu_loop (emit (Say InvalidSelection) (emit (Ask AskMenu) st)) ls)"
  by pat_completeness auto
termination
proof (relation "measure (\<lambda>(st, ins). length ins)")
  show "wf (measure (\<lambda>(st, ins). length ins))" by simp
next
  fix st :: state and l :: string and ls :: "string list"
  show "((emit (Say InvalidMenuInput) (emit (Ask AskMenu) st), ls), st, l # ls)
          \<in> measure (\<lambda>(st, ins). length ins)"
    by simp
next
  fix st :: state and l :: string and ls ls2 :: "string list" and n :: int
    and x :: "state \<times> string list" and st2 :: state
  assume "dispatch n (emit (Ask AskMenu) st) ls = Inr x" and "(st2, ls2) = x"
  then have "inputs_of (dispatch n (emit (Ask AskMenu) st) ls) = ls2"
    by (auto simp: inputs_of_def)
  with dispatch_inputs [of n "emit (Ask AskMenu) st" ls]
  show "((st2, ls2), st, l # ls) \<in> measure (\<lambda>(st, ins). length ins)" by simp
next
  fix st :: state and l :: string and ls ls2 :: "string list" and n :: int
    and x :: "error \<times> state \<times> string list" and y :: "state \<times> string list"
    and e :: error and st2 :: state
  assume "dispatch n (emit (Ask AskMenu) st) ls = Inl x" and "(e, y) = x" and "(st2, ls2) = y"
  then have "inputs_of (dispatch n (emit (Ask AskMenu) st) ls) = ls2"
    by (auto simp: inputs_of_def)
  with dispatch_inputs [of n "emit (Ask AskMenu) st" ls]
  show "((emit (Say InvalidMenuInput) st2, ls2), st, l # ls) \<in> measure (\<lambda>(st, ins). length ins)"
    by simp
next
  fix st :: state and l :: string and ls :: "string list"
  show "((emit (Say InvalidSelection) (emit (Ask AskMenu) st), ls), st, l # ls)
          \<in> measure (\<lambda>(st, ins). length ins)"
    by simp
qed

text \<open>The script: load, then the menu.\<close>

definition script :: "string option \<Rightarrow> string list \<Rightarrow> result" where
  "script f ins =
     (case read_shoes_data (boot f) of
        Inl (e, st) \<Rightarrow> Inl (e, st, ins)
      | Inr st \<Rightarrow> menu_loop st ins)"

section \<open>Selections on an empty store\<close>

text \<open>
  C2. No exception escapes to the process boundary for any menu selection,
  the empty store after a missing backing file included. The script does not
  keep this: with no backing file the loader reports the condition and leaves
  the store empty, and the selections 3 (restock) and 6 (highest quantity)
  then index the first entry of an empty sorted list. The \<open>IndexError\<close> is
  not a \<open>ValueError\<close>, so the menu loop does not catch it.
\<close>

theorem empty_store_selection_raises:
  "script None [''3''] =
     Inl (IndexError,
          \<lparr>heap = [], shoe_list = [], inventory_txt = None,
           stdout = [Say FileNotFound, Ask AskMenu]\<rparr>, []) \<and>
   script None [''6''] =
     Inl (IndexError,
          \<lparr>heap = [], shoe_list = [], inventory_txt = None,
           stdout = [Say FileNotFound, Ask AskMenu]\<rparr>, [])"
  by code_simp

section \<open>Restock and Records that share a code\<close>

definition same_code_file :: string where
  "same_code_file =
     ''Country,Code,Product,Cost,Quantity'' @ [CHR 0x0A] @
     ''South Africa,SKU1,Nike,100,5'' @ [CHR 0x0A] @
     ''Brazil,SKU1,Adidas,200,1'' @ [CHR 0x0A]"

text \<open>
  C1. A confirmed restock adds the entered amount to the selected Record and
  leaves every other Record unchanged, also when another Record shares the
  code of the selected one. The write-back loop does not keep this: it stores
  the selected object into the first entry whose code matches. With the file
  below the second Record has the lowest quantity and the first one shares its
  code; after the restock by 3 the first Record is gone and both entries of the
  list are the restocked object.
\<close>

theorem restock_overwrites_earlier_same_code:
  "store (state_of (script (Some same_code_file) [])) =
     [\<lparr>country = ''South Africa'', code = ''SKU1'', product = ''Nike'', cost = 100, quantity = 5\<rparr>,
      \<lparr>country = ''Brazil'', code = ''SKU1'', product = ''Adidas'', cost = 200, quantity = 1\<rparr>] \<and>
   store (state_of (script (Some same_code_file) [''3'', ''Y'', ''3''])) =
     [\<lparr>country = ''Brazil'', code = ''SKU1'', product = ''Adidas'', cost = 200, quantity = 4\<rparr>,
      \<lparr>country = ''Brazil'', code = ''SKU1'', product = ''Adidas'', cost = 200, quantity = 4\<rparr>] \<and>
   shoe_list (state_of (script (Some same_code_file) [''3'', ''Y'', ''3''])) = [1, 1]"
  by code_simp

section \<open>Lowest and highest quantity\<close>






text \<open>The quantities 5, 1, 9, 9 of the example.\<close>

definition example_5_1_9_9 :: state where
  "example_5_1_9_9 =
     \<lparr>heap = [\<lparr>country = ''South Africa'', code = ''SKU1'', product = ''Nike'', cost = 10, quantity = 5\<rparr>,
              \<lparr>country = ''Brazil'', code = ''SKU2'', product = ''Adidas'', cost = 20, quantity = 1\<rparr>,
              \<lparr>country = ''China'', code = ''SKU3'', product = ''Puma'', cost = 30, quantity = 9\<rparr>,
              \<lparr>country = ''India'', code = ''SKU4'', product = ''Bata'', cost = 40, quantity = 9\<rparr>],
      shoe_list = [0, 1, 2, 3], inventory_txt = None, stdout = []\<rparr>"


text \<open>
  The example: the lowest pick is the entry with quantity 1, the highest pick
  the first of the two entries with quantity 9.
\<close>

lemma example_5_1_9_9_picks:
  "map quantity (store example_5_1_9_9) = [5, 1, 9, 9] \<and>
   hd (sorted_ascending example_5_1_9_9) = 1 \<and> hd (sorted_descending example_5_1_9_9) = 2"
  by code_simp


section \<open>The confirmation of a restock\<close>


lemma prompt_loop_checked:
  "prompt_loop p norm c check ins out = (Entered a, ins', out') \<Longrightarrow> \<exists>v. check v = Inr a"
proof (induction ins arbitrary: out)
  case Nil
  then show ?case by simp
next
  case (Cons l ls)
  then show ?case
    by (cases "check (norm l)") (auto split: if_splits)
qed

lemma state_of_simps [simp]:
  "state_of (Inl (e, st, ins)) = st" "state_of (Inr (st, ins)) = st"
  by (simp_all add: state_of_def)

lemma emit_fields [simp]:
  "heap (emit x st) = heap st" "shoe_list (emit x st) = shoe_list st"
  "inventory_txt (emit x st) = inventory_txt st" "stdout (emit x st) = stdout st @ [x]"
  by (simp_all add: emit_def)

lemma after_prompt_state:
  assumes "\<And>a ins out. P (state_of (k a ins out))"
    and "\<And>out. P (st\<lparr>stdout := out\<rparr>)"
  shows "P (state_of (after_prompt r st k))"
  using assms by (cases r) (auto simp: after_prompt_def split: entered.splits)



section \<open>Costs and quantities stay non-negative\<close>

definition valid_refs :: "state \<Rightarrow> bool" where
  "valid_refs st = (\<forall>r\<in>set (shoe_list st). r < length (heap st))"

definition non_negative :: "state \<Rightarrow> bool" where
  "non_negative st = (\<forall>s\<in>set (store st). 0 \<le> cost s \<and> 0 \<le> quantity s)"

lemma append_shoe_fields [simp]:
  "heap (append_shoe s st) = heap st @ [s]"
  "shoe_list (append_shoe s st) = shoe_list st @ [length (heap st)]"
  "inventory_txt (append_shoe s st) = inventory_txt st"
  "stdout (append_shoe s st) = stdout st"
  by (simp_all add: append_shoe_def)

lemma store_append_shoe:
  "valid_refs st \<Longrightarrow> store (append_shoe s st) = store st @ [s]"
  by (simp add: store_def valid_refs_def nth_append)

lemma store_stdout [simp]: "store (st\<lparr>stdout := out\<rparr>) = store st"
  by (simp add: store_def)

lemma store_emit [simp]: "store (emit x st) = store st"
  by (simp add: store_def)

lemma valid_refs_stdout [simp]: "valid_refs (st\<lparr>stdout := out\<rparr>) = valid_refs st"
  by (simp add: valid_refs_def)

lemma capture_shoes_Inr_cases:
  assumes "capture_shoes st ins = Inr (st', ins')"
  obtains
    (country) out where
      "ask_country ins (stdout st @ [Say CaptureBanner]) = (Cancelled, ins', out)"
      "st' = st\<lparr>stdout := out\<rparr>"
  | (code) c i1 o1 out where
      "ask_country ins (stdout st @ [Say CaptureBanner]) = (Entered c, i1, o1)"
      "ask_code i1 o1 = (Cancelled, ins', out)" "st' = st\<lparr>stdout := out\<rparr>"
  | (product) c i1 o1 k i2 o2 out where
      "ask_country ins (stdout st @ [Say CaptureBanner]) = (Entered c, i1, o1)"
      "ask_code i1 o1 = (Entered k, i2, o2)"
      "ask_product i2 o2 = (Cancelled, ins', out)" "st' = st\<lparr>stdout := out\<rparr>"
  | (cost) c i1 o1 k i2 o2 p i3 o3 out where
      "ask_country ins (stdout st @ [Say CaptureBanner]) = (Entered c, i1, o1)"
      "ask_code i1 o1 = (Entered k, i2, o2)"
      "ask_product i2 o2 = (Entered p, i3, o3)"
      "ask_cost i3 o3 = (Cancelled, ins', out)" "st' = st\<lparr>stdout := out\<rparr>"
  | (quantity) c i1 o1 k i2 o2 p i3 o3 n i4 o4 out where
      "ask_country ins (stdout st @ [Say CaptureBanner]) = (Entered c, i1, o1)"
      "ask_code i1 o1 = (Entered k, i2, o2)"
      "ask_product i2 o2 = (Entered p, i3, o3)"
      "ask_cost i3 o3 = (Entered n, i4, o4)"
      "ask_quantity i4 o4 = (Cancelled, ins', out)" "st' = st\<lparr>stdout := out\<rparr>"
  | (captured) c i1 o1 k i2 o2 p i3 o3 n i4 o4 q out where
      "ask_country ins (stdout st @ [Say CaptureBanner]) = (Entered c, i1, o1)"
      "ask_code i1 o1 = (Entered k, i2, o2)"
      "ask_product i2 o2 = (Entered p, i3, o3)"
      "ask_cost i3 o3 = (Entered n, i4, o4)"
      "ask_quantity i4 o4 = (Entered q, ins', out)"
      "st' = append_shoe \<lparr>country = c, code = k, product = p, cost = n, quantity = q\<rparr>
               (st\<lparr>stdout := out @ [Say ShoeCaptured]\<rparr>)"
  using assms unfolding capture_shoes_def after_prompt_def
  by (auto split: prod.splits entered.splits)

lemma re_stock_Inr_cases:
  assumes "re_stock st ins = Inr (st', ins')"
  obtains
    (declined) lowest rs answer where
      "sorted_ascending st = lowest # rs" "ins = answer # ins'"
      "py_upper (py_strip answer) \<noteq> ''Y''"
      "st' = st\<lparr>stdout := stdout st @ [Say LowestStock, ShowShoe (heap st ! lowest),
                                         Ask AskRestock, Say RestockDeclined]\<rparr>"
  | (cancelled) lowest rs answer ins1 out where
      "sorted_ascending st = lowest # rs" "ins = answer # ins1"
      "py_upper (py_strip answer) = ''Y''" "st' = st\<lparr>stdout := out\<rparr>"
  | (restocked) lowest rs answer ins1 amount out where
      "sorted_ascending st = lowest # rs" "ins = answer # ins1"
      "py_upper (py_strip answer) = ''Y''"
      "ask_amount ins1 (stdout st @ [Say LowestStock, ShowShoe (heap st ! lowest), Ask AskRestock])
         = (Entered amount, ins', out)"
      "st' = restock_and_save (st\<lparr>stdout := out\<rparr>) lowest amount"
  using assms unfolding re_stock_def after_prompt_def
  by (auto simp: Let_def emit_def split: list.splits if_splits prod.splits entered.splits)

lemma write_back_subset: "set (write_back h lowest rs) \<subseteq> insert lowest (set rs)"
  by (induction rs) auto

lemma sorted_ascending_set: "set (sorted_ascending st) = set (shoe_list st)"
  by (simp add: sorted_ascending_def)

lemma restock_and_save_non_negative:
  assumes "non_negative st" and "lowest \<in> set (shoe_list st)" and "0 \<le> amount"
  shows "non_negative (restock_and_save st lowest amount)"
proof -
  let ?new = "(heap st ! lowest)\<lparr>quantity := quantity (heap st ! lowest) + amount\<rparr>"
  let ?h = "(heap st)[lowest := ?new]"
  have old: "0 \<le> cost (heap st ! r) \<and> 0 \<le> quantity (heap st ! r)" if "r \<in> set (shoe_list st)" for r
    using assms(1) that by (simp add: non_negative_def store_def)
  have "0 \<le> cost (?h ! r) \<and> 0 \<le> quantity (?h ! r)" if "r \<in> set (shoe_list st)" for r
  proof (cases "r = lowest \<and> lowest < length (heap st)")
    case True
    then show ?thesis using old [OF assms(2)] assms(3) by simp
  next
    case False
    then have "?h ! r = heap st ! r" by (cases "r = lowest") (auto simp: list_update_beyond)
    then show ?thesis using old [OF that] by simp
  qed
  moreover have "set (write_back ?h lowest (shoe_list st)) \<subseteq> set (shoe_list st)"
    using write_back_subset [of ?h lowest "shoe_list st"] assms(2) by auto
  ultimately show ?thesis
    by (auto simp: non_negative_def restock_and_save_def store_def Let_def)
qed

lemma check_amount_Inr: "check_amount v = Inr a \<Longrightarrow> 0 \<le> a"
  by (auto simp: check_amount_def split: option.splits if_splits)

lemma check_cost_Inr: "check_cost v = Inr a \<Longrightarrow> 0 \<le> a"
  by (auto simp: check_cost_def split: option.splits if_splits)

lemma check_quantity_Inr: "check_quantity v = Inr a \<Longrightarrow> 0 \<le> a"
  by (auto simp: check_quantity_def split: option.splits if_splits)

lemma non_negative_stdout [simp]: "non_negative (st\<lparr>stdout := out\<rparr>) = non_negative st"
  by (simp add: non_negative_def)

text \<open>
  C6. In a store whose Records all have cost and quantity at least 0, an add
  that returns and a restock that returns leave every Record of the store with
  cost and quantity at least 0: the add accepts only a cost and a quantity that
  are at least 0, the restock only an amount that is at least 0.
\<close>

theorem add_and_restock_keep_non_negative:
  assumes "valid_refs st" and "non_negative st"
  shows "(capture_shoes st ins = Inr (st', ins') \<longrightarrow> non_negative st') \<and>
         (re_stock st ins2 = Inr (st'', ins'') \<longrightarrow> non_negative st'')"
proof (intro conjI impI)
  assume "capture_shoes st ins = Inr (st', ins')"
  then show "non_negative st'"
  proof (cases rule: capture_shoes_Inr_cases)
    case (captured c i1 o1 k i2 o2 p i3 o3 n i4 o4 q out)
    from captured(4) have "0 \<le> n"
      unfolding ask_cost_def by (blast dest: prompt_loop_checked check_cost_Inr)
    moreover from captured(5) have "0 \<le> q"
      unfolding ask_quantity_def by (blast dest: prompt_loop_checked check_quantity_Inr)
    ultimately show ?thesis
      using assms captured(6) by (simp add: non_negative_def store_append_shoe)
  qed (use assms in simp_all)
next
  assume "re_stock st ins2 = Inr (st'', ins'')"
  then show "non_negative st''"
  proof (cases rule: re_stock_Inr_cases)
    case (restocked lowest rs answer ins1 amount out)
    from restocked(4) have "0 \<le> amount"
      unfolding ask_amount_def by (blast dest: prompt_loop_checked check_amount_Inr)
    moreover have "lowest \<in> set (shoe_list st)"
      using restocked(1) sorted_ascending_set [of st] by auto
    ultimately show ?thesis
      using assms(2) restocked(5) by (simp add: restock_and_save_non_negative)
  qed (use assms in simp_all)
qed


theorem add_and_restock_keep_non_negative_witness:
  "valid_refs example_5_1_9_9 \<and> non_negative example_5_1_9_9 \<and>
   (\<exists>st'. capture_shoes example_5_1_9_9 [''kenya'', ''sku5'', ''asics'', ''50'', ''0''] = Inr (st', []) \<and>
          length (store st') = 5 \<and> non_negative st') \<and>
   (\<exists>st''. re_stock example_5_1_9_9 [''y'', ''3''] = Inr (st'', []) \<and>
          map quantity (store st'') = [5, 4, 9, 9] \<and> non_negative st'')"
proof -
  have v: "valid_refs example_5_1_9_9"
    by (simp add: valid_refs_def example_5_1_9_9_def)
  have n: "non_negative example_5_1_9_9"
    by (simp add: non_negative_def store_def example_5_1_9_9_def)
  have "case capture_shoes example_5_1_9_9 [''kenya'', ''sku5'', ''asics'', ''50'', ''0''] of
          Inr (st', ins') \<Rightarrow> ins' = [] \<and> length (store st') = 5 | Inl x \<Rightarrow> False"
    by code_simp
  then obtain st' where
    c: "capture_shoes example_5_1_9_9 [''kenya'', ''sku5'', ''asics'', ''50'', ''0''] = Inr (st', [])"
      "length (store st') = 5"
    by (auto split: sum.splits)
  have "case re_stock example_5_1_9_9 [''y'', ''3''] of
          Inr (st', ins') \<Rightarrow> ins' = [] \<and> map quantity (store st') = [5, 4, 9, 9] | Inl x \<Rightarrow> False"
    by code_simp
  then obtain st'' where
    r: "re_stock example_5_1_9_9 [''y'', ''3''] = Inr (st'', [])"
      "map quantity (store st'') = [5, 4, 9, 9]"
    by (auto split: sum.splits)
  from add_and_restock_keep_non_negative
         [OF v n, of "[''kenya'', ''sku5'', ''asics'', ''50'', ''0'']" st' "[]" "[''y'', ''3'']" st'' "[]"]
       c r v n
  show ?thesis by auto
qed

section \<open>Search by code\<close>

lemma search_found:
  assumes "i < length (store st)" and "code (store st ! i) = py_upper (py_strip l)"
    and "\<forall>j<i. code (store st ! j) \<noteq> py_upper (py_strip l)"
  shows "find (\<lambda>r. py_upper (py_strip l) = code (heap st ! r)) (shoe_list st) = Some (shoe_list st ! i)"
proof -
  have "\<exists>k<length (shoe_list st). py_upper (py_strip l) = code (heap st ! (shoe_list st ! k)) \<and>
          shoe_list st ! i = shoe_list st ! k \<and>
          (\<forall>j<k. \<not> py_upper (py_strip l) = code (heap st ! (shoe_list st ! j)))"
    using assms by (intro exI [of _ i]) (auto simp: store_def)
  then show ?thesis by (simp add: find_Some_iff)
qed




text \<open>
  The case of an existing code: when the code of the Record at \<open>k\<close> is
  unchanged by stripping and uppercasing, the search for it displays the
  first Record with that code, at or before \<open>k\<close>.
\<close>

lemma search_existing_code:
  assumes "k < length (store st)"
    and "py_upper (py_strip (code (store st ! k))) = code (store st ! k)"
  shows "\<exists>i\<le>k. code (store st ! i) = code (store st ! k) \<and>
           (\<forall>j<i. code (store st ! j) \<noteq> code (store st ! k)) \<and>
           (float_ok (cost (store st ! i)) \<longrightarrow>
              search_shoe st (code (store st ! k) # rest) =
                Inr (st\<lparr>stdout := stdout st @ [Ask AskSearch, Say ShoeFound,
                                                 ShowShoe (store st ! i)]\<rparr>, rest))"
proof -
  let ?key = "code (store st ! k)"
  define i where "i = (LEAST i. code (store st ! i) = ?key)"
  have i: "code (store st ! i) = ?key" unfolding i_def by (rule LeastI) simp
  have le: "i \<le> k" unfolding i_def by (rule Least_le) simp
  have first: "\<forall>j<i. code (store st ! j) \<noteq> ?key"
    unfolding i_def using not_less_Least by blast
  from le assms(1) have len: "i < length (store st)" by simp
  have f: "find (\<lambda>r. py_upper (py_strip ?key) = code (heap st ! r)) (shoe_list st) =
             Some (shoe_list st ! i)"
    using len i first by (intro search_found) (simp_all add: assms(2))
  have "search_shoe st (?key # rest) =
          Inr (st\<lparr>stdout := stdout st @ [Ask AskSearch, Say ShoeFound, ShowShoe (store st ! i)]\<rparr>,
               rest)"
    if "float_ok (cost (store st ! i))"
    using f that len by (simp add: search_shoe_def Let_def emit_def store_def)
  with i le first show ?thesis by blast
qed

section \<open>Loading a malformed file\<close>





definition malformed_file :: string where
  "malformed_file =
     ''Country,Code,Product,Cost,Quantity\<newline>'' @
     ''South Africa,SKU1001,Nike,1200,5,extra,more\<newline>'' @
     ''Brazil,SKU1002,Adidas,cheap,7\<newline>'' @
     ''China,SKU1003,Puma,900,2\<newline>''"

lemma malformed_file_load:
  "read_shoes_data (boot (Some malformed_file)) =
     Inl (ValueError,
          \<lparr>heap = [\<lparr>country = ''South Africa'', code = ''SKU1001'', product = ''Nike'',
                    cost = 1200, quantity = 5\<rparr>],
           shoe_list = [0], inventory_txt = Some malformed_file, stdout = []\<rparr>)"
  by code_simp



section \<open>Loading a valid file\<close>










section \<open>Cancelling a capture\<close>



























section \<open>Writing the store and loading it again\<close>

text \<open>
  A text field that the file format can carry: no comma and no line break. A
  Shoe that the file can carry has such text fields, and a country that does
  not start with whitespace (the loader strips the line).
\<close>

definition plain :: "string \<Rightarrow> bool" where
  "plain s = (CHR '','' \<notin> set s \<and> CHR 0x0A \<notin> set s \<and> CHR 0x0D \<notin> set s)"

definition storable :: "Shoe \<Rightarrow> bool" where
  "storable s =
     (plain (country s) \<and> plain (code s) \<and> plain (product s) \<and>
      (country s = [] \<or> \<not> py_isspace (hd (country s))))"

lemma ord_digit_char: "d < 10 \<Longrightarrow> ord (digit_char d) = 48 + d"
  by (simp add: ord_def digit_char_def)

lemma is_digit_digit_char: "d < 10 \<Longrightarrow> is_digit (digit_char d)"
  by (simp add: is_digit_def ord_digit_char)

lemma digits_all: "list_all is_digit (digits n) \<and> digits n \<noteq> []"
proof (induction n rule: digits.induct)
  case (1 n)
  then show ?case
    by (subst (1 2) digits.simps) (auto simp: is_digit_digit_char)
qed




lemma is_digit_facts:
  assumes "is_digit c"
  shows "\<not> int_isspace c" "\<not> py_isspace c" "c \<noteq> CHR ''-''" "c \<noteq> CHR ''+''" "c \<noteq> CHR '',''"
    "c \<noteq> CHR 0x0A" "c \<noteq> CHR 0x0D"
  using assms by (auto simp: is_digit_def int_isspace_def py_isspace_def ord_def)

lemma digits_hd_last: "is_digit (hd (digits n)) \<and> is_digit (last (digits n))"
  using digits_all [of n] by (cases "digits n") (auto simp: list_all_iff)




lemma py_str_hd: "\<not> py_isspace (hd (py_str n))"
  using digits_hd_last [of "nat n"]
  by (simp add: py_str_def is_digit_facts) (simp add: py_isspace_def ord_def)



















subsection \<open>What every store of the program satisfies\<close>

definition all_storable :: "state \<Rightarrow> bool" where
  "all_storable st = (\<forall>s\<in>set (store st). storable s)"

lemma all_storable_stdout [simp]: "all_storable (st\<lparr>stdout := out\<rparr>) = all_storable st"
  by (simp add: all_storable_def)

lemma all_storable_emit [simp]: "all_storable (emit x st) = all_storable st"
  by (simp add: all_storable_def)

lemma valid_refs_emit [simp]: "valid_refs (emit x st) = valid_refs st"
  by (simp add: valid_refs_def)

subsection \<open>The loader\<close>
















subsection \<open>Restock\<close>




subsection \<open>Capture\<close>











subsection \<open>Every operation\<close>
















end
